theory Spec2Isabelle
  imports Complex_Main "HOL-Library.Sublist"
begin

section \<open>Python values and files\<close>

text \<open>
  The four scripts read JSON reports with \<^verbatim>\<open>json.load\<close> and work on the parsed Python
  values. A parsed value is a \<open>json\<close>; an object is the list of its entries in the
  order of the parsed \<^verbatim>\<open>dict\<close> (whose keys are distinct). A JSON number without
  fraction or exponent is a Python \<^verbatim>\<open>int\<close>, unbounded (\<open>JInt\<close>); any other number
  is a \<^verbatim>\<open>float\<close> (\<open>JFloat\<close>), which is modelled by its value, a rational: arithmetic
  on floats is exact here, without rounding, and the floats that are not finite (the
  literals \<^verbatim>\<open>NaN\<close> and \<^verbatim>\<open>Infinity\<close>, which \<^verbatim>\<open>json.load\<close> also accepts, and float
  arithmetic that overflows to them) are outside the model. Converting an int to a float
  raises OverflowError beyond the range of a double, as in Python.

  An expression that raises is modelled by \<open>None\<close>: every \<^verbatim>\<open>try\<close> block of the
  scripts catches \<^verbatim>\<open>Exception\<close>, so the handlers do not look at the exception's class.
\<close>

datatype json =
    JNull
  | JBool bool
  | JInt int
  | JFloat rat
  | JStr string
  | JArr "json list"
  | JObj "(string \<times> json) list"

text \<open>
  What a path names: nothing (\<^verbatim>\<open>Path.exists()\<close> is false), a path that exists but
  that \<^verbatim>\<open>open\<close> refuses, a file that opens but on which \<^verbatim>\<open>json.load\<close> raises, or a
  file holding a JSON value.
\<close>

datatype disk_file = Missing | Unopenable | Malformed | Parsed json

type_synonym directory = "string \<Rightarrow> disk_file"

fun exists_file :: "disk_file \<Rightarrow> bool" where
  "exists_file Missing = False"
| "exists_file _ = True"

text \<open>\<^verbatim>\<open>with open(p, 'r') as f: data = json.load(f)\<close>\<close>

fun load_json :: "disk_file \<Rightarrow> json option" where
  "load_json (Parsed j) = Some j"
| "load_json _ = None"

text \<open>\<^verbatim>\<open>d.get(k, default)\<close>: only a \<^verbatim>\<open>dict\<close> has the method (AttributeError otherwise).\<close>

fun py_get :: "json \<Rightarrow> string \<Rightarrow> json \<Rightarrow> json option" where
  "py_get (JObj kvs) k dflt = Some (case map_of kvs k of None \<Rightarrow> dflt | Some v \<Rightarrow> v)"
| "py_get _ k dflt = None"

text \<open>
  \<^verbatim>\<open>for r in x\<close>: a list gives its elements, a dict its keys, a string its characters;
  the other values are not iterable (TypeError).
\<close>

fun py_iter :: "json \<Rightarrow> json list option" where
  "py_iter (JArr xs) = Some xs"
| "py_iter (JObj kvs) = Some (map (\<lambda>kv. JStr (fst kv)) kvs)"
| "py_iter (JStr s) = Some (map (\<lambda>c. JStr [c]) s)"
| "py_iter _ = None"

subsection \<open>Python numbers\<close>

text \<open>A Python number: an \<^verbatim>\<open>int\<close>, or a finite \<^verbatim>\<open>float\<close> by its value.\<close>

datatype number = PInt int | PFloat rat

fun value_of :: "number \<Rightarrow> rat" where
  "value_of (PInt n) = rat_of_int n"
| "value_of (PFloat x) = x"

text \<open>
  The magnitude from which a number has no double: the largest double is
  \<open>2^1024 - 2^971\<close>, and rounding to nearest takes everything from \<open>2^1024 - 2^970\<close> on
  to \<open>2^1024\<close>.
\<close>

definition float_limit :: rat where
  "float_limit = 2 ^ 1024 - 2 ^ 970"

text \<open>\<^verbatim>\<open>float(n)\<close> for an int: OverflowError (\<open>None\<close>) when it is too large.\<close>

definition to_float :: "int \<Rightarrow> rat option" where
  "to_float n = (if \<bar>rat_of_int n\<bar> < float_limit then Some (rat_of_int n) else None)"

fun as_float :: "number \<Rightarrow> rat option" where
  "as_float (PInt n) = to_float n"
| "as_float (PFloat x) = Some x"

text \<open>
  \<^verbatim>\<open>a + b\<close>, \<^verbatim>\<open>a - b\<close>, \<^verbatim>\<open>a * b\<close>: exact on two ints; otherwise the int operand is
  converted to float first.
\<close>

fun py_add :: "number \<Rightarrow> number \<Rightarrow> number option" where
  "py_add (PInt a) (PInt b) = Some (PInt (a + b))"
| "py_add a b =
     (case (as_float a, as_float b) of
        (Some x, Some y) \<Rightarrow> Some (PFloat (x + y))
      | _ \<Rightarrow> None)"

fun py_sub :: "number \<Rightarrow> number \<Rightarrow> number option" where
  "py_sub (PInt a) (PInt b) = Some (PInt (a - b))"
| "py_sub a b =
     (case (as_float a, as_float b) of
        (Some x, Some y) \<Rightarrow> Some (PFloat (x - y))
      | _ \<Rightarrow> None)"

fun py_mul :: "number \<Rightarrow> number \<Rightarrow> number option" where
  "py_mul (PInt a) (PInt b) = Some (PInt (a * b))"
| "py_mul a b =
     (case (as_float a, as_float b) of
        (Some x, Some y) \<Rightarrow> Some (PFloat (x * y))
      | _ \<Rightarrow> None)"

text \<open>
  \<^verbatim>\<open>a / b\<close>, true division: always a float. On two ints the quotient itself is rounded
  to a double, and the division raises OverflowError only when the quotient is too large;
  otherwise the int operand is converted first. Division by zero raises.
\<close>

fun py_truediv :: "number \<Rightarrow> number \<Rightarrow> number option" where
  "py_truediv (PInt a) (PInt b) =
     (if b = 0 then None
      else if \<bar>rat_of_int a / rat_of_int b\<bar> < float_limit
      then Some (PFloat (rat_of_int a / rat_of_int b))
      else None)"
| "py_truediv a b =
     (case (as_float a, as_float b) of
        (Some x, Some y) \<Rightarrow> if y = 0 then None else Some (PFloat (x / y))
      | _ \<Rightarrow> None)"

text \<open>
  \<^verbatim>\<open>max(0, x)\<close>: \<open>x\<close> when \<^verbatim>\<open>x > 0\<close>, else the int 0. Comparisons between ints and
  floats are exact and never raise.
\<close>

definition py_max0 :: "number \<Rightarrow> number" where
  "py_max0 x = (if value_of x > 0 then x else PInt 0)"

text \<open>\<^verbatim>\<open>x += 70\<close> on a number: 70 has a double, so this never raises.\<close>

fun plus_70 :: "number \<Rightarrow> number" where
  "plus_70 (PInt n) = PInt (n + 70)"
| "plus_70 (PFloat x) = PFloat (x + 70)"

text \<open>
  The number a value stands for in arithmetic and in an ordering comparison with a
  number: \<^verbatim>\<open>bool\<close> is a subclass of \<^verbatim>\<open>int\<close>; for the other values these operations
  raise TypeError.
\<close>

fun py_num :: "json \<Rightarrow> number option" where
  "py_num (JInt n) = Some (PInt n)"
| "py_num (JFloat x) = Some (PFloat x)"
| "py_num (JBool b) = Some (PInt (if b then 1 else 0))"
| "py_num _ = None"

text \<open>
  Whether the format \<^verbatim>\<open>:.1f\<close> accepts a value: a float is printed, an int or a bool is
  converted to float first (OverflowError when too large), and the other values raise
  ValueError or TypeError.
\<close>

fun format_1f :: "json \<Rightarrow> bool" where
  "format_1f (JInt n) = (to_float n \<noteq> None)"
| "format_1f (JFloat x) = True"
| "format_1f (JBool b) = True"
| "format_1f _ = False"

text \<open>Truth value of a Python object.\<close>

fun py_truthy :: "json \<Rightarrow> bool" where
  "py_truthy JNull = False"
| "py_truthy (JBool b) = b"
| "py_truthy (JInt n) = (n \<noteq> 0)"
| "py_truthy (JFloat x) = (x \<noteq> 0)"
| "py_truthy (JStr s) = (s \<noteq> [])"
| "py_truthy (JArr xs) = (xs \<noteq> [])"
| "py_truthy (JObj kvs) = (kvs \<noteq> [])"

text \<open>
  \<^verbatim>\<open>len([r for r in rs if p(r)])\<close>, where evaluating \<open>p\<close> on an element may raise.
\<close>

fun count_if :: "(json \<Rightarrow> bool option) \<Rightarrow> json list \<Rightarrow> int option" where
  "count_if p [] = Some 0"
| "count_if p (r # rs) =
     (case p r of
        None \<Rightarrow> None
      | Some b \<Rightarrow>
          (case count_if p rs of
             None \<Rightarrow> None
           | Some n \<Rightarrow> Some (if b then n + 1 else n)))"

section \<open>evaluate\_qa\_quality\_gates.py\<close>

subsection \<open>The thresholds\<close>

record gates =
  security_score_threshold :: rat
  compliance_pass_rate :: rat
  code_quality_score :: rat
  performance_baseline_met :: bool
  vulnerability_count_limit :: int
  test_coverage_minimum :: rat

definition quality_gates :: gates where
  "quality_gates =
     \<lparr> security_score_threshold = 90,
       compliance_pass_rate = 100,
       code_quality_score = 85,
       performance_baseline_met = True,
       vulnerability_count_limit = 0,
       test_coverage_minimum = 80 \<rparr>"

subsection \<open>evaluate\_security\_results\<close>

text \<open>
  The returned dict. Its key \<^verbatim>\<open>passed\<close> is \<open>security_passed\<close> here, since the four
  category records are four record types.
\<close>

record security_result =
  security_score :: rat
  vulnerability_count :: int
  security_passed :: bool

text \<open>\<^verbatim>\<open>r.get('issue_severity') == sev\<close>\<close>

definition issue_severity_is :: "string \<Rightarrow> json \<Rightarrow> bool option" where
  "issue_severity_is sev r =
     map_option (\<lambda>v. v = JStr sev) (py_get r ''issue_severity'' JNull)"

text \<open>
  \<^verbatim>\<open>len([r for r in bandit_data.get('results', []) if r.get('issue_severity') == sev])\<close>
\<close>

definition bandit_severity_count :: "string \<Rightarrow> json \<Rightarrow> int option" where
  "bandit_severity_count sev bandit_data =
     (case py_get bandit_data ''results'' (JArr []) of
        None \<Rightarrow> None
      | Some results \<Rightarrow>
          (case py_iter results of
             None \<Rightarrow> None
           | Some rs \<Rightarrow> count_if (issue_severity_is sev) rs))"

text \<open>
  Each of the three blocks adds a term to \<^verbatim>\<open>security_score\<close> and a number to
  \<^verbatim>\<open>vulnerability_count\<close>; the pair is (score term, vulnerabilities). A file that does
  not exist adds nothing; an exception inside the \<^verbatim>\<open>try\<close> adds the partial score 50.
\<close>

definition bandit_block :: "disk_file \<Rightarrow> int \<times> int" where
  "bandit_block bandit_file =
     (if exists_file bandit_file then
        (case load_json bandit_file of
           None \<Rightarrow> (50, 0)
         | Some bandit_data \<Rightarrow>
             (case bandit_severity_count ''HIGH'' bandit_data of
                None \<Rightarrow> (50, 0)
              | Some high_severity \<Rightarrow>
                  (case bandit_severity_count ''MEDIUM'' bandit_data of
                     None \<Rightarrow> (50, 0)
                   | Some medium_severity \<Rightarrow>
                       (max 0 (100 - high_severity * 20 - medium_severity * 10),
                        high_severity + medium_severity))))
      else (0, 0))"

text \<open>\<^verbatim>\<open>len(safety_data) if isinstance(safety_data, list) else 0\<close>\<close>

fun safety_vuln_count :: "json \<Rightarrow> int" where
  "safety_vuln_count (JArr xs) = int (length xs)"
| "safety_vuln_count _ = 0"

definition safety_block :: "disk_file \<Rightarrow> int \<times> int" where
  "safety_block safety_file =
     (if exists_file safety_file then
        (case load_json safety_file of
           None \<Rightarrow> (50, 0)
         | Some safety_data \<Rightarrow>
             (let vuln_count = safety_vuln_count safety_data
              in (max 0 (100 - vuln_count * 15), vuln_count)))
      else (0, 0))"

text \<open>\<^verbatim>\<open>f.get('extra', {}).get('severity') == 'ERROR'\<close>\<close>

definition semgrep_is_error :: "json \<Rightarrow> bool option" where
  "semgrep_is_error f =
     (case py_get f ''extra'' (JObj []) of
        None \<Rightarrow> None
      | Some extra \<Rightarrow> map_option (\<lambda>v. v = JStr ''ERROR'') (py_get extra ''severity'' JNull))"

definition semgrep_critical_findings :: "json \<Rightarrow> int option" where
  "semgrep_critical_findings semgrep_data =
     (case py_get semgrep_data ''results'' (JArr []) of
        None \<Rightarrow> None
      | Some findings \<Rightarrow>
          (case py_iter findings of
             None \<Rightarrow> None
           | Some fs \<Rightarrow> count_if semgrep_is_error fs))"

definition semgrep_block :: "disk_file \<Rightarrow> int \<times> int" where
  "semgrep_block semgrep_file =
     (if exists_file semgrep_file then
        (case load_json semgrep_file of
           None \<Rightarrow> (50, 0)
         | Some semgrep_data \<Rightarrow>
             (case semgrep_critical_findings semgrep_data of
                None \<Rightarrow> (50, 0)
              | Some critical_findings \<Rightarrow>
                  (max 0 (100 - critical_findings * 25), critical_findings)))
      else (0, 0))"

definition evaluate_security_results :: "directory \<Rightarrow> security_result" where
  "evaluate_security_results security_results_dir =
     (let security_score0 = (0::int);
          vulnerability_count0 = (0::int);
          (s1, v1) = bandit_block (security_results_dir ''bandit-report.json'');
          security_score1 = security_score0 + s1;
          vulnerability_count1 = vulnerability_count0 + v1;
          (s2, v2) = safety_block (security_results_dir ''safety-report.json'');
          security_score2 = security_score1 + s2;
          vulnerability_count2 = vulnerability_count1 + v2;
          (s3, v3) = semgrep_block (security_results_dir ''semgrep-report.json'');
          security_score3 = security_score2 + s3;
          vulnerability_count3 = vulnerability_count2 + v3;
          avg_security_score =
            (if security_score3 > 0 then rat_of_int security_score3 / 3 else 0)
      in \<lparr> security_score = avg_security_score,
           vulnerability_count = vulnerability_count3,
           security_passed =
             (avg_security_score \<ge> security_score_threshold quality_gates \<and>
              vulnerability_count3 \<le> vulnerability_count_limit quality_gates) \<rparr>)"

text \<open>
  The sum of the per-tool score terms, and the number of tool reports that contribute a
  term: a report contributes (its score, or 50) exactly when its file exists.
\<close>

definition security_score_sum :: "directory \<Rightarrow> int" where
  "security_score_sum d =
     fst (bandit_block (d ''bandit-report.json'')) +
     fst (safety_block (d ''safety-report.json'')) +
     fst (semgrep_block (d ''semgrep-report.json''))"

definition contributing_tools :: "directory \<Rightarrow> nat" where
  "contributing_tools d =
     length (filter (\<lambda>name. exists_file (d name))
       [''bandit-report.json'', ''safety-report.json'', ''semgrep-report.json''])"

text \<open>Example directories.\<close>

definition no_files :: directory where
  "no_files = (\<lambda>name. Missing)"

definition clean_bandit :: json where
  "clean_bandit = JObj [(''results'', JArr [])]"

definition only_clean_bandit :: directory where
  "only_clean_bandit = no_files(''bandit-report.json'' := Parsed clean_bandit)"

definition all_clean :: directory where
  "all_clean =
     no_files(''bandit-report.json'' := Parsed (JObj [(''results'', JArr [])]),
              ''safety-report.json'' := Parsed (JArr []),
              ''semgrep-report.json'' := Parsed (JObj [(''results'', JArr [])]))"

subsection \<open>evaluate\_compliance\_results\<close>

record compliance_result =
  pass_rate :: rat
  passed_checks :: int
  total_checks :: int
  compliance_passed :: bool

definition compliance_checks :: "string list" where
  "compliance_checks =
     [''gdpr-compliance.json'', ''hipaa-compliance.json'',
      ''soc2-compliance.json'', ''iso27001-compliance.json'']"

text \<open>
  \<^verbatim>\<open>compliance_data.get('status') == 'PASSED' or compliance_data.get('compliant', False)\<close>,
  as the condition of the \<^verbatim>\<open>if\<close>.
\<close>

definition compliance_check_passed :: "json \<Rightarrow> bool option" where
  "compliance_check_passed compliance_data =
     (case py_get compliance_data ''status'' JNull of
        None \<Rightarrow> None
      | Some status \<Rightarrow>
          if status = JStr ''PASSED'' then Some True
          else map_option py_truthy (py_get compliance_data ''compliant'' (JBool False)))"

text \<open>The loop over the check files, with \<^verbatim>\<open>passed_checks\<close> as its accumulator.\<close>

fun count_passed_checks :: "directory \<Rightarrow> string list \<Rightarrow> int \<Rightarrow> int" where
  "count_passed_checks d [] passed = passed"
| "count_passed_checks d (check_file # rest) passed =
     count_passed_checks d rest
       (if exists_file (d check_file) then
          (case load_json (d check_file) of
             None \<Rightarrow> passed
           | Some compliance_data \<Rightarrow>
               (case compliance_check_passed compliance_data of
                  Some True \<Rightarrow> passed + 1
                | _ \<Rightarrow> passed))
        else passed)"

definition evaluate_compliance_results :: "directory \<Rightarrow> compliance_result" where
  "evaluate_compliance_results compliance_results_dir =
     (let n_total = int (length compliance_checks);
          n_passed = count_passed_checks compliance_results_dir compliance_checks 0;
          rate = (if n_total > 0 then (rat_of_int n_passed / rat_of_int n_total) * 100 else 0)
      in \<lparr> pass_rate = rate,
           passed_checks = n_passed,
           total_checks = n_total,
           compliance_passed = (rate \<ge> compliance_pass_rate quality_gates) \<rparr>)"

subsection \<open>evaluate\_quality\_results\<close>

text \<open>
  The quality results directory: its report files, and its \<^verbatim>\<open>coverage\<close> subdirectory,
  which is \<open>None\<close> when it does not exist and otherwise the matches of
  \<^verbatim>\<open>glob("*summary*")\<close> in the order the loop visits them, each with its file name.
\<close>

record quality_dir =
  quality_files :: directory
  coverage_matches :: "(string \<times> disk_file) list option"

record quality_result =
  quality_score :: rat
  coverage_score :: json
  quality_passed :: bool

text \<open>
  \<^verbatim>\<open>Path.suffix\<close> of a file name: from the last dot on, unless the name has no dot, or
  only a leading one, or ends with it.
\<close>

definition py_suffix :: "string \<Rightarrow> string" where
  "py_suffix name =
     (let ext = rev (takeWhile (\<lambda>c. c \<noteq> CHR ''.'') (rev name))
      in if length ext = length name \<or> ext = [] \<or> length ext + 1 = length name
         then [] else CHR ''.'' # ext)"

text \<open>
  \<^verbatim>\<open>max(0, 100 - (avg_complexity * 5))\<close> for the value found under
  \<^verbatim>\<open>averageComplexity\<close>; \<open>None\<close> when it raises (the value is not a number, or a
  conversion to float overflows).
\<close>

definition complexity_term :: "json \<Rightarrow> number option" where
  "complexity_term complexity_data =
     (case py_get complexity_data ''averageComplexity'' (JInt 10) of
        None \<Rightarrow> None
      | Some v \<Rightarrow>
          (case py_num v of
             None \<Rightarrow> None
           | Some avg_complexity \<Rightarrow>
               (case py_mul avg_complexity (PInt 5) of
                  None \<Rightarrow> None
                | Some m \<Rightarrow> map_option py_max0 (py_sub (PInt 100) m))))"

text \<open>
  The complexity block, from \<^verbatim>\<open>quality_score\<close> before it to \<^verbatim>\<open>quality_score\<close>
  after it: unchanged when the file is missing, plus 70 when the \<^verbatim>\<open>try\<close> raises.
\<close>

definition complexity_block :: "disk_file \<Rightarrow> number \<Rightarrow> number" where
  "complexity_block complexity_file score =
     (if exists_file complexity_file then
        (case load_json complexity_file of
           None \<Rightarrow> plus_70 score
         | Some complexity_data \<Rightarrow>
             (case complexity_term complexity_data of
                None \<Rightarrow> plus_70 score
              | Some c \<Rightarrow>
                  (case py_add score c of
                     None \<Rightarrow> plus_70 score
                   | Some score' \<Rightarrow> score')))
      else score)"

text \<open>The technical-debt block: \<^verbatim>\<open>quality_score += debt_score\<close>.\<close>

definition debt_block :: "disk_file \<Rightarrow> number \<Rightarrow> number" where
  "debt_block debt_file score =
     (if exists_file debt_file then
        (case load_json debt_file of
           None \<Rightarrow> plus_70 score
         | Some debt_data \<Rightarrow>
             (case py_get debt_data ''debt_score'' (JInt 80) of
                None \<Rightarrow> plus_70 score
              | Some v \<Rightarrow>
                  (case py_num v of
                     None \<Rightarrow> plus_70 score
                   | Some debt_score \<Rightarrow>
                       (case py_add score debt_score of
                          None \<Rightarrow> plus_70 score
                        | Some score' \<Rightarrow> score'))))
      else score)"

text \<open>\<^verbatim>\<open>'total' in coverage_data\<close>\<close>

fun contains_total :: "json \<Rightarrow> bool option" where
  "contains_total (JObj kvs) = Some (map_of kvs ''total'' \<noteq> None)"
| "contains_total (JArr xs) = Some (JStr ''total'' \<in> set xs)"
| "contains_total (JStr s) = Some (sublist ''total'' s)"
| "contains_total _ = None"

text \<open>\<^verbatim>\<open>x[k]\<close> with a string \<open>k\<close>: KeyError on a dict without it, TypeError elsewhere.\<close>

fun py_index :: "json \<Rightarrow> string \<Rightarrow> json option" where
  "py_index (JObj kvs) k = map_of kvs k"
| "py_index _ k = None"

text \<open>
  The body of the \<^verbatim>\<open>if coverage_file.suffix == '.json'\<close>: the coverage score after it,
  or \<open>None\<close> when it raises.
\<close>

definition read_coverage :: "json \<Rightarrow> json \<Rightarrow> json option" where
  "read_coverage coverage_data coverage =
     (case contains_total coverage_data of
        None \<Rightarrow> None
      | Some False \<Rightarrow> Some coverage
      | Some True \<Rightarrow>
          (case py_index coverage_data ''total'' of
             None \<Rightarrow> None
           | Some total_entry \<Rightarrow>
               (case py_get total_entry ''lines'' (JObj []) of
                  None \<Rightarrow> None
                | Some lines \<Rightarrow> py_get lines ''pct'' (JInt 85))))"

text \<open>
  The loop over the coverage summaries: the first file that is handled without an
  exception ends it (\<^verbatim>\<open>break\<close>); an exception is caught and the loop goes on.
\<close>

fun coverage_loop :: "(string \<times> disk_file) list \<Rightarrow> json \<Rightarrow> json" where
  "coverage_loop [] coverage = coverage"
| "coverage_loop ((name, Missing) # rest) coverage = coverage_loop rest coverage"
| "coverage_loop ((name, Unopenable) # rest) coverage = coverage_loop rest coverage"
| "coverage_loop ((name, Malformed) # rest) coverage =
     (if py_suffix name = ''.json'' then coverage_loop rest coverage else coverage)"
| "coverage_loop ((name, Parsed coverage_data) # rest) coverage =
     (if py_suffix name = ''.json'' then
        (case read_coverage coverage_data coverage of
           None \<Rightarrow> coverage_loop rest coverage
         | Some c \<Rightarrow> c)
      else coverage)"

text \<open>\<^verbatim>\<open>quality_score\<close> after the two blocks, starting from the int 0.\<close>

definition quality_score_sum :: "directory \<Rightarrow> number" where
  "quality_score_sum d =
     debt_block (d ''technical-debt.json'')
       (complexity_block (d ''complexity-report.json'') (PInt 0))"

text \<open>
  The division \<^verbatim>\<open>quality_score / 2\<close> and the comparison
  \<^verbatim>\<open>coverage_score >= 80.0\<close> are outside every \<^verbatim>\<open>try\<close>. The division raises
  OverflowError for an int sum too large for a float; the comparison is evaluated only
  when the first conjunct holds, and raises TypeError for a coverage figure that is not a
  number. The function then returns nothing (\<open>None\<close>).
\<close>

definition evaluate_quality_results :: "quality_dir \<Rightarrow> quality_result option" where
  "evaluate_quality_results quality_results_dir =
     (let score = quality_score_sum (quality_files quality_results_dir);
          coverage =
            (case coverage_matches quality_results_dir of
               None \<Rightarrow> JInt 85
             | Some matches \<Rightarrow> coverage_loop matches (JInt 85))
      in case (if value_of score > 0 then py_truediv score (PInt 2) else Some (PInt 85)) of
           None \<Rightarrow> None
         | Some avg_quality_score \<Rightarrow>
             (let passed =
                    (if value_of avg_quality_score \<ge> code_quality_score quality_gates then
                       map_option (\<lambda>c. value_of c \<ge> test_coverage_minimum quality_gates)
                         (py_num coverage)
                     else Some False)
              in map_option
                   (\<lambda>p. \<lparr> quality_score = value_of avg_quality_score,
                          coverage_score = coverage, quality_passed = p \<rparr>)
                   passed))"

subsection \<open>evaluate\_performance\_results\<close>

text \<open>
  The returned dict; the three measurements are present only when the baseline was read,
  the note only when it was not.
\<close>

record performance_result =
  performance_score :: rat
  response_time_ms :: "json option"
  memory_usage_mb :: "json option"
  lighthouse_score :: "json option"
  baseline_met :: bool
  performance_passed :: bool
  performance_note :: "string option"

text \<open>\<^verbatim>\<open>max(0, 100 - (x / 10))\<close> for a measurement \<open>x\<close>; \<open>None\<close> when it raises.\<close>

definition measurement_score :: "json \<Rightarrow> number option" where
  "measurement_score x =
     (case py_num x of
        None \<Rightarrow> None
      | Some n \<Rightarrow>
          (case py_truediv n (PInt 10) of
             None \<Rightarrow> None
           | Some q \<Rightarrow> map_option py_max0 (py_sub (PInt 100) q)))"

text \<open>
  \<^verbatim>\<open>(response_score + memory_score + lighthouse_score) / 3\<close>; \<open>None\<close> when it
  raises.
\<close>

definition average_of_three :: "number \<Rightarrow> number \<Rightarrow> json \<Rightarrow> number option" where
  "average_of_three response_score memory_score lighthouse =
     (case py_add response_score memory_score of
        None \<Rightarrow> None
      | Some s1 \<Rightarrow>
          (case py_num lighthouse of
             None \<Rightarrow> None
           | Some ls \<Rightarrow>
               (case py_add s1 ls of
                  None \<Rightarrow> None
                | Some s2 \<Rightarrow> py_truediv s2 (PInt 3))))"

text \<open>The body of the \<^verbatim>\<open>try\<close>, after the baseline has been loaded.\<close>

definition score_baseline :: "json \<Rightarrow> performance_result option" where
  "score_baseline perf_data =
     (case (py_get perf_data ''avg_response_time'' (JInt 1000),
            py_get perf_data ''peak_memory_mb'' (JInt 512),
            py_get perf_data ''lighthouse_performance'' (JInt 90)) of
        (Some response_time, Some memory_usage, Some lighthouse) \<Rightarrow>
          (case measurement_score response_time of
             None \<Rightarrow> None
           | Some response_score \<Rightarrow>
               (case measurement_score memory_usage of
                  None \<Rightarrow> None
                | Some memory_score \<Rightarrow>
                    (case average_of_three response_score memory_score lighthouse of
                       None \<Rightarrow> None
                     | Some avg_perf_score \<Rightarrow>
                         (let met = (value_of avg_perf_score \<ge> 75)
                          in Some \<lparr> performance_score = value_of avg_perf_score,
                                    response_time_ms = Some response_time,
                                    memory_usage_mb = Some memory_usage,
                                    lighthouse_score = Some lighthouse,
                                    baseline_met = met,
                                    performance_passed = met,
                                    performance_note = None \<rparr>))))
      | _ \<Rightarrow> None)"

definition default_performance :: performance_result where
  "default_performance =
     \<lparr> performance_score = 80,
       response_time_ms = None,
       memory_usage_mb = None,
       lighthouse_score = None,
       baseline_met = True,
       performance_passed = True,
       performance_note = Some ''Performance baseline not available, assuming pass'' \<rparr>"

definition evaluate_performance_results :: "directory \<Rightarrow> performance_result" where
  "evaluate_performance_results performance_results_dir =
     (let baseline_file = performance_results_dir ''performance-baseline.json''
      in if exists_file baseline_file then
           (case load_json baseline_file of
              None \<Rightarrow> default_performance
            | Some perf_data \<Rightarrow>
                (case score_baseline perf_data of
                   None \<Rightarrow> default_performance
                 | Some result \<Rightarrow> result))
         else default_performance)"

subsection \<open>evaluate\_all\_gates and main\<close>

text \<open>
  The evaluation results, without the timestamp. After computing them,
  \<^verbatim>\<open>evaluate_all_gates\<close> prints its summary, outside any \<^verbatim>\<open>try\<close>: the scores it
  computed are floats (or the ints 0, 85 and 80) and always print, but the coverage figure
  comes from the coverage summary as it is, and when \<^verbatim>\<open>:.1f\<close> does not accept it
  the function raises instead of returning.
\<close>

record evaluation_results =
  security :: security_result
  compliance :: compliance_result
  quality :: quality_result
  performance :: performance_result
  overall_status :: string
  gates_used :: gates

definition evaluate_all_gates ::
  "directory \<Rightarrow> directory \<Rightarrow> quality_dir \<Rightarrow> directory \<Rightarrow> evaluation_results option" where
  "evaluate_all_gates security_dir compliance_dir quality_results_dir performance_dir =
     (let sec = evaluate_security_results security_dir;
          comp = evaluate_compliance_results compliance_dir
      in case evaluate_quality_results quality_results_dir of
           None \<Rightarrow> None
         | Some qual \<Rightarrow>
             (let perf = evaluate_performance_results performance_dir;
                  all_passed =
                    list_all (\<lambda>b. b)
                      [security_passed sec, compliance_passed comp,
                       quality_passed qual, performance_passed perf]
              in if \<not> format_1f (coverage_score qual) then None
                 else Some \<lparr> security = sec, compliance = comp, quality = qual,
                             performance = perf,
                             overall_status = (if all_passed then ''PASSED'' else ''FAILED''),
                             gates_used = quality_gates \<rparr>))"

text \<open>
  How a script ends: \<^verbatim>\<open>sys.exit(n)\<close>, or an exception that nothing catches, on which
  the interpreter prints the traceback and the process exits with status 1.
\<close>

datatype outcome = Exit nat | Uncaught

fun exit_status :: "outcome \<Rightarrow> nat" where
  "exit_status (Exit n) = n"
| "exit_status Uncaught = 1"

text \<open>
  \<^verbatim>\<open>main\<close> of the evaluator. \<open>makedirs_ok\<close> and \<open>write_ok\<close> say whether
  \<^verbatim>\<open>os.makedirs\<close> and the writing of the output file succeed; the second component is
  what the output file holds afterwards, if it was written.
\<close>

definition evaluate_main ::
  "directory \<Rightarrow> directory \<Rightarrow> quality_dir \<Rightarrow> directory \<Rightarrow> bool \<Rightarrow> bool
     \<Rightarrow> outcome \<times> evaluation_results option" where
  "evaluate_main security_dir compliance_dir quality_results_dir performance_dir
       makedirs_ok write_ok =
     (if \<not> makedirs_ok then (Uncaught, None)
      else
        (case evaluate_all_gates security_dir compliance_dir quality_results_dir
                performance_dir of
           None \<Rightarrow> (Uncaught, None)
         | Some results \<Rightarrow>
             if \<not> write_ok then (Uncaught, None)
             else (Exit (if overall_status results = ''PASSED'' then 0 else 1),
                   Some results)))"

section \<open>check\_qa\_gate\_status.py\<close>

text \<open>The four summary lines: the key of the section and the key of its score.\<close>

definition category_sections :: "(string \<times> string) list" where
  "category_sections =
     [(''security'', ''security_score''), (''compliance'', ''compliance_pass_rate''),
      (''quality'', ''quality_score''), (''performance'', ''performance_score'')]"

text \<open>
  One \<^verbatim>\<open>if key in evaluation_data:\<close> statement of the summary, on a dict: true when
  it completes, false when it raises. With the key present, the statement subscripts the
  section with \<^verbatim>\<open>['passed']\<close> and formats its score with \<^verbatim>\<open>:.1f\<close>. Writing the
  formatted line to standard output is taken to succeed.
\<close>

definition print_section :: "json \<Rightarrow> string \<times> string \<Rightarrow> bool" where
  "print_section evaluation_data ks =
     (case py_index evaluation_data (fst ks) of
        None \<Rightarrow> True
      | Some sec \<Rightarrow>
          (case py_index sec ''passed'' of
             None \<Rightarrow> False
           | Some p \<Rightarrow>
               (case py_get sec (snd ks) (JInt 0) of
                  None \<Rightarrow> False
                | Some v \<Rightarrow> format_1f v)))"

definition check_qa_gate_status :: "disk_file \<Rightarrow> json" where
  "check_qa_gate_status evaluation_file =
     (if \<not> exists_file evaluation_file then JStr ''FAILED''
      else
        (case load_json evaluation_file of
           None \<Rightarrow> JStr ''FAILED''
         | Some evaluation_data \<Rightarrow>
             (case py_get evaluation_data ''overall_status'' (JStr ''FAILED'') of
                None \<Rightarrow> JStr ''FAILED''
              | Some status \<Rightarrow>
                  if list_all (print_section evaluation_data) category_sections
                  then status else JStr ''FAILED'')))"

definition check_main :: "disk_file \<Rightarrow> outcome" where
  "check_main evaluation_file =
     (let status = check_qa_gate_status evaluation_file
      in Exit (if status = JStr ''PASSED'' then 0 else 1))"

section \<open>create\_qa\_promotion\_report.py\<close>

text \<open>\<^verbatim>\<open>d.get(k1, {}).get(k2, default)\<close>\<close>

definition nested_get :: "json \<Rightarrow> string \<Rightarrow> string \<Rightarrow> json \<Rightarrow> json option" where
  "nested_get d k1 k2 dflt =
     (case py_get d k1 (JObj []) of
        None \<Rightarrow> None
      | Some inner \<Rightarrow> py_get inner k2 dflt)"

definition next_stage_requirements :: json where
  "next_stage_requirements =
     JObj [(''ultra_strict_validation'', JBool True),
           (''accuracy_threshold'', JFloat (999999 / 10000)),
           (''comprehensive_testing'', JBool True),
           (''performance_benchmarking'', JBool True),
           (''security_certification_required'', JBool True)]"

definition report_metadata :: json where
  "report_metadata =
     JObj [(''pipeline_version'', JStr ''3.0.0''),
           (''qa_stage_version'', JStr ''2.0.0''),
           (''validation_framework'', JStr ''DartinBot Enterprise QA''),
           (''promotion_automation'', JBool True),
           (''quality_gates_enforced'', JBool True)]"

text \<open>
  The lookups in the QA evaluation that the report's dict literal makes, in its order;
  each is \<open>None\<close> when it raises.
\<close>

definition report_lookups :: "json \<Rightarrow> json option list" where
  "report_lookups qa_evaluation =
     [py_get qa_evaluation ''overall_status'' (JStr ''UNKNOWN''),
      nested_get qa_evaluation ''security'' ''security_score'' (JInt 0),
      nested_get qa_evaluation ''compliance'' ''compliance_pass_rate'' (JInt 0),
      nested_get qa_evaluation ''quality'' ''quality_score'' (JInt 0),
      nested_get qa_evaluation ''performance'' ''performance_score'' (JInt 0),
      nested_get qa_evaluation ''security'' ''vulnerability_count'' (JInt 0),
      nested_get qa_evaluation ''security'' ''passed'' (JBool False),
      nested_get qa_evaluation ''compliance'' ''passed_checks'' (JInt 0),
      nested_get qa_evaluation ''compliance'' ''total_checks'' (JInt 0),
      nested_get qa_evaluation ''compliance'' ''passed'' (JBool False)]"

text \<open>The report built from the values looked up, without its timestamp.\<close>

definition build_report :: "string \<Rightarrow> string \<Rightarrow> json list \<Rightarrow> json option" where
  "build_report target status vs =
     (case vs of
        [summary, sec_score, comp_rate, qual_score, perf_score,
         vulns, sec_ok, n_passed, n_total, comp_ok] \<Rightarrow>
          Some (JObj
            [(''promotion_report'', JObj
                [(''source_stage'', JStr ''qa''),
                 (''target_stage'', JStr target),
                 (''promotion_status'', JStr status),
                 (''qa_validation_summary'', summary),
                 (''detailed_scores'', JObj
                     [(''security_score'', sec_score),
                      (''compliance_pass_rate'', comp_rate),
                      (''quality_score'', qual_score),
                      (''performance_score'', perf_score)]),
                 (''security_validation'', JObj
                     [(''vulnerability_count'', vulns),
                      (''security_certified'', sec_ok)]),
                 (''compliance_validation'', JObj
                     [(''passed_checks'', n_passed),
                      (''total_checks'', n_total),
                      (''compliance_validated'', comp_ok)]),
                 (''next_stage_requirements'', next_stage_requirements),
                 (''recommendation'', JStr
                     (if status = ''PASSED''
                      then ''APPROVED - All QA quality gates passed, ready for Testing stage''
                      else ''REJECTED - QA quality gates failed, requires remediation'')),
                 (''action_taken'', JStr
                     (if status = ''PASSED''
                      then ''Automatic promotion to Testing stage initiated''
                      else ''Promotion blocked, manual review required''))]),
             (''promotion_metadata'', report_metadata)])
      | _ \<Rightarrow> None)"

text \<open>
  \<^verbatim>\<open>create_qa_promotion_report\<close>. The evaluation that cannot be loaded is replaced by
  the empty dict; the lookups are outside any \<^verbatim>\<open>try\<close>, so an evaluation of another
  shape makes the function raise (\<open>None\<close>).
\<close>

definition create_qa_promotion_report :: "disk_file \<Rightarrow> string \<Rightarrow> string \<Rightarrow> json option" where
  "create_qa_promotion_report qa_evaluation_file target status =
     (let qa_evaluation =
            (case load_json qa_evaluation_file of None \<Rightarrow> JObj [] | Some j \<Rightarrow> j)
      in case those (report_lookups qa_evaluation) of
           None \<Rightarrow> None
         | Some vs \<Rightarrow> build_report target status vs)"

text \<open>
  \<^verbatim>\<open>main\<close> of the reporter, which ends with \<^verbatim>\<open>return 0\<close> under
  \<^verbatim>\<open>sys.exit(main())\<close>. \<open>mkdir_ok\<close> and \<open>write_ok\<close> say whether creating the
  \<^verbatim>\<open>reports\<close> directory and writing the report file succeed; the second component is
  the report file written.
\<close>

definition report_main ::
  "disk_file \<Rightarrow> string \<Rightarrow> string \<Rightarrow> bool \<Rightarrow> bool \<Rightarrow> outcome \<times> json option" where
  "report_main qa_evaluation_file target_stage status mkdir_ok write_ok =
     (if \<not> mkdir_ok then (Uncaught, None)
      else
        (case create_qa_promotion_report qa_evaluation_file target_stage status of
           None \<Rightarrow> (Uncaught, None)
         | Some report \<Rightarrow>
             if \<not> write_ok then (Uncaught, None) else (Exit 0, Some report)))"

section \<open>promote\_to\_testing.py\<close>

text \<open>
  A template found by \<^verbatim>\<open>source_path.glob("**/*.md")\<close>: its path relative to the
  source directory, its bytes, and which step of copying it fails, if any (creating the
  target's parent directory, \<^verbatim>\<open>shutil.copy2\<close>, or writing the sidecar file).
\<close>

datatype copy_fault = NoFault | MkdirFails | CopyFails | SidecarFails

record template =
  rel_path :: string
  content :: string
  fault :: copy_fault

text \<open>An entry of \<^verbatim>\<open>promotion_metadata['promoted_templates']\<close>.\<close>

record promoted =
  promoted_name :: string
  promoted_source_path :: string
  promoted_target_path :: string
  size_bytes :: nat

text \<open>\<^verbatim>\<open>self.promotion_metadata\<close>, without its timestamp.\<close>

record promotion_metadata =
  source_stage :: string
  target_stage :: string
  promoted_templates :: "promoted list"
  qa_validation_summary :: json
  total_templates :: "nat option"
  successfully_promoted :: "nat option"

definition initial_metadata :: promotion_metadata where
  "initial_metadata =
     \<lparr> source_stage = ''qa'', target_stage = ''testing'', promoted_templates = [],
       qa_validation_summary = JObj [], total_templates = None,
       successfully_promoted = None \<rparr>"

text \<open>
  The files the promoter writes, by path: a copied template, a sidecar metadata file,
  the promotion summary, the README of the testing stage.
\<close>

datatype entry =
    Copied string
  | Sidecar json
  | Summary promotion_metadata
  | Readme promotion_metadata

type_synonym tree = "string \<Rightarrow> entry option"

text \<open>Parts of a path: \<^verbatim>\<open>p.name\<close>, \<^verbatim>\<open>p.stem\<close>, \<^verbatim>\<open>p.with_suffix(s)\<close>, \<^verbatim>\<open>d / r\<close>.\<close>

definition py_name :: "string \<Rightarrow> string" where
  "py_name p = rev (takeWhile (\<lambda>c. c \<noteq> CHR ''/'') (rev p))"

definition py_stem :: "string \<Rightarrow> string" where
  "py_stem p = (let n = py_name p in take (length n - length (py_suffix n)) n)"

definition with_suffix :: "string \<Rightarrow> string \<Rightarrow> string" where
  "with_suffix p s = take (length p - length (py_suffix (py_name p))) p @ s"

definition path_join :: "string \<Rightarrow> string \<Rightarrow> string" where
  "path_join d r = d @ ''/'' @ r"

definition testing_stage_requirements :: json where
  "testing_stage_requirements =
     JObj [(''ultra_strict_validation'', JBool True),
           (''accuracy_threshold'', JFloat (999999 / 10000)),
           (''comprehensive_testing'', JBool True),
           (''performance_benchmarking'', JBool True)]"

text \<open>
  The \<^verbatim>\<open>metadata\<close> dict of a sidecar file, without its timestamp; \<open>None\<close> when a
  lookup in the QA results raises.
\<close>

definition sidecar_metadata :: "string \<Rightarrow> json \<Rightarrow> json option" where
  "sidecar_metadata source_file qa_results =
     (case [nested_get qa_results ''security'' ''security_score'' (JInt 0),
            nested_get qa_results ''compliance'' ''compliance_pass_rate'' (JInt 0),
            nested_get qa_results ''quality'' ''quality_score'' (JInt 0),
            nested_get qa_results ''performance'' ''performance_score'' (JInt 0),
            py_get qa_results ''overall_status'' (JStr ''UNKNOWN'')] of
        [Some sec_score, Some comp_rate, Some qual_score, Some perf_score, Some status] \<Rightarrow>
          Some (JObj
            [(''template_name'', JStr (py_stem source_file)),
             (''original_file'', JStr source_file),
             (''promoted_from'', JStr ''qa''),
             (''qa_validation'', JObj
                 [(''security_score'', sec_score),
                  (''compliance_pass_rate'', comp_rate),
                  (''quality_score'', qual_score),
                  (''performance_score'', perf_score),
                  (''overall_status'', status)]),
             (''testing_stage_requirements'', testing_stage_requirements)])
      | _ \<Rightarrow> None)"

text \<open>
  \<^verbatim>\<open>copy_template_with_metadata\<close>: every exception is caught and gives \<open>False\<close>, with
  whatever was written before it left in place.
\<close>

definition copy_template_with_metadata ::
  "string \<Rightarrow> template \<Rightarrow> string \<Rightarrow> json \<Rightarrow> tree \<Rightarrow> bool \<times> tree" where
  "copy_template_with_metadata source_file tmpl target_file qa_results t =
     (if fault tmpl = MkdirFails then (False, t)
      else if fault tmpl = CopyFails then (False, t)
      else
        (let t1 = t(target_file \<mapsto> Copied (content tmpl))
         in case sidecar_metadata source_file qa_results of
              None \<Rightarrow> (False, t1)
            | Some metadata \<Rightarrow>
                if fault tmpl = SidecarFails then (False, t1)
                else (True, t1(with_suffix target_file ''.json'' \<mapsto> Sidecar metadata))))"

text \<open>
  The loop over the template files; its state is \<^verbatim>\<open>promoted_count\<close>, the list
  \<^verbatim>\<open>promoted_templates\<close> and the files written so far.
\<close>

fun promote_loop ::
  "string \<Rightarrow> string \<Rightarrow> json \<Rightarrow> template list \<Rightarrow> nat \<times> promoted list \<times> tree
     \<Rightarrow> nat \<times> promoted list \<times> tree" where
  "promote_loop src tgt qa_results [] st = st"
| "promote_loop src tgt qa_results (tmpl # rest) (promoted_count, promoted_list, t) =
     (let template_file = path_join src (rel_path tmpl);
          target_file = path_join tgt (rel_path tmpl)
      in case copy_template_with_metadata template_file tmpl target_file qa_results t of
           (True, t') \<Rightarrow>
             promote_loop src tgt qa_results rest
               (promoted_count + 1,
                promoted_list @ [\<lparr> promoted_name = py_stem template_file,
                          promoted_source_path = template_file,
                          promoted_target_path = target_file,
                          size_bytes = length (content tmpl) \<rparr>],
                t')
         | (False, t') \<Rightarrow> promote_loop src tgt qa_results rest (promoted_count, promoted_list, t'))"

text \<open>
  What one invocation is given: the two directories, the QA results file, the templates
  the glob finds (in its order), and whether writing the summary and the README fails.
  The source files are taken to stay as the glob found them, so that
  \<^verbatim>\<open>template_file.stat()\<close> succeeds and gives the size of the bytes copied.
\<close>

record promote_env =
  source_dir :: string
  target_dir :: string
  qa_results_file :: disk_file
  template_files :: "template list"
  summary_fault :: bool
  readme_fault :: bool

text \<open>
  \<^verbatim>\<open>promote_templates\<close> returns its boolean (\<open>None\<close> when an exception leaves it: the
  status lookup on QA results that are not a dict, or the writing of the summary), the
  promotion metadata and the files as it leaves them.
\<close>

definition promote_templates ::
  "promote_env \<Rightarrow> tree \<Rightarrow> bool option \<times> promotion_metadata \<times> tree" where
  "promote_templates env t =
     (case load_json (qa_results_file env) of
        None \<Rightarrow> (Some False, initial_metadata, t)
      | Some qa_results \<Rightarrow>
          (case py_get qa_results ''overall_status'' JNull of
             None \<Rightarrow> (None, initial_metadata, t)
           | Some status \<Rightarrow>
               if status \<noteq> JStr ''PASSED'' then (Some False, initial_metadata, t)
               else if template_files env = [] then (Some False, initial_metadata, t)
               else
                 (case promote_loop (source_dir env) (target_dir env) qa_results
                         (template_files env) (0, [], t) of
                    (promoted_count, promoted_list, t') \<Rightarrow>
                      (let metadata = initial_metadata
                             \<lparr> promoted_templates := promoted_list,
                               qa_validation_summary := qa_results,
                               total_templates := Some (length (template_files env)),
                               successfully_promoted := Some promoted_count \<rparr>
                       in if summary_fault env then (None, metadata, t')
                          else (Some (promoted_count = length (template_files env)),
                                metadata,
                                t'(path_join (target_dir env) ''promotion_summary.json''
                                     \<mapsto> Summary metadata))))))"

definition promote_main :: "promote_env \<Rightarrow> tree \<Rightarrow> outcome \<times> tree" where
  "promote_main env t =
     (case promote_templates env t of
        (None, metadata, t') \<Rightarrow> (Uncaught, t')
      | (Some success, metadata, t') \<Rightarrow>
          if success then
            (if readme_fault env then (Uncaught, t')
             else (Exit 0, t'(path_join (target_dir env) ''README.md'' \<mapsto> Readme metadata)))
          else (Exit 1, t'))"

section \<open>Example inputs\<close>

definition all_compliant :: directory where
  "all_compliant =
     no_files(''gdpr-compliance.json'' := Parsed (JObj [(''status'', JStr ''PASSED'')]),
              ''hipaa-compliance.json'' := Parsed (JObj [(''status'', JStr ''PASSED'')]),
              ''soc2-compliance.json'' := Parsed (JObj [(''compliant'', JBool True)]),
              ''iso27001-compliance.json'' := Parsed (JObj [(''compliant'', JBool True)]))"

definition empty_quality_dir :: quality_dir where
  "empty_quality_dir = \<lparr> quality_files = no_files, coverage_matches = None \<rparr>"

definition negative_debt_dir :: quality_dir where
  "negative_debt_dir =
     \<lparr> quality_files =
         no_files(''technical-debt.json'' := Parsed (JObj [(''debt_score'', JInt (- 10))])),
       coverage_matches = None \<rparr>"

definition only_complexity_dir :: quality_dir where
  "only_complexity_dir =
     \<lparr> quality_files =
         no_files(''complexity-report.json'' := Parsed (JObj [(''averageComplexity'', JInt 4)])),
       coverage_matches = None \<rparr>"

definition malformed_baseline :: directory where
  "malformed_baseline = no_files(''performance-baseline.json'' := Malformed)"

definition failed_evaluation :: json where
  "failed_evaluation =
     JObj [(''security'', JObj [(''security_score'', JInt 50), (''vulnerability_count'', JInt 2),
                               (''passed'', JBool False)]),
           (''overall_status'', JStr ''FAILED'')]"

definition passed_evaluation :: json where
  "passed_evaluation =
     JObj [(''security'', JObj [(''security_score'', JInt 100), (''vulnerability_count'', JInt 0),
                               (''passed'', JBool True)]),
           (''overall_status'', JStr ''PASSED'')]"

definition passed_without_flag :: json where
  "passed_without_flag =
     JObj [(''overall_status'', JStr ''PASSED''), (''security'', JObj [])]"

definition passed_huge_score :: json where
  "passed_huge_score =
     JObj [(''overall_status'', JStr ''PASSED''),
           (''security'', JObj [(''passed'', JBool True),
                               (''security_score'', JInt (10 ^ 310))])]"

definition one_template :: template where
  "one_template = \<lparr> rel_path = ''guide.md'', content = ''# Guide'', fault = NoFault \<rparr>"

definition refused_env :: promote_env where
  "refused_env =
     \<lparr> source_dir = ''qa'', target_dir = ''testing'',
       qa_results_file = Parsed failed_evaluation,
       template_files = [one_template],
       summary_fault = False, readme_fault = False \<rparr>"

definition no_templates_env :: promote_env where
  "no_templates_env =
     \<lparr> source_dir = ''qa'', target_dir = ''testing'',
       qa_results_file = Parsed passed_evaluation,
       template_files = [],
       summary_fault = False, readme_fault = False \<rparr>"

definition one_template_env :: promote_env where
  "one_template_env =
     \<lparr> source_dir = ''qa'', target_dir = ''testing'',
       qa_results_file = Parsed passed_evaluation,
       template_files = [one_template],
       summary_fault = False, readme_fault = False \<rparr>"

definition empty_tree :: tree where
  "empty_tree = (\<lambda>p. None)"

section \<open>Properties of the security evaluator\<close>

lemma bandit_block_nonneg: "0 \<le> fst (bandit_block f)"
  by (simp add: bandit_block_def split: option.split)

lemma safety_block_nonneg: "0 \<le> fst (safety_block f)"
  by (simp add: safety_block_def Let_def split: option.split)

lemma semgrep_block_nonneg: "0 \<le> fst (semgrep_block f)"
  by (simp add: semgrep_block_def split: option.split)

lemma security_score_sum_nonneg: "0 \<le> security_score_sum d"
  unfolding security_score_sum_def
  using bandit_block_nonneg safety_block_nonneg semgrep_block_nonneg
  by simp

lemma missing_blocks:
  "bandit_block Missing = (0, 0)" "safety_block Missing = (0, 0)" "semgrep_block Missing = (0, 0)"
  by (simp_all add: bandit_block_def safety_block_def semgrep_block_def)

lemma security_score_eq:
  "security_score (evaluate_security_results d) =
     (if security_score_sum d > 0 then rat_of_int (security_score_sum d) / 3 else 0)"
  by (simp add: evaluate_security_results_def security_score_sum_def Let_def split: prod.split)

lemma security_score_div3:
  "security_score (evaluate_security_results d) = rat_of_int (security_score_sum d) / 3"
proof (cases "security_score_sum d > 0")
  case True
  then show ?thesis by (simp add: security_score_eq)
next
  case False
  with security_score_sum_nonneg [of d] have "security_score_sum d = 0" by simp
  then show ?thesis by (simp add: security_score_eq)
qed

text \<open>
  C4. The reported security score is the sum of the per-tool score terms divided by 3,
  however many of the three tool reports exist; when Bandit's report is the only one
  present, the score is Bandit's term divided by 3.
\<close>

theorem security_score_divisor_is_three:
  "security_score (evaluate_security_results d) = rat_of_int (security_score_sum d) / 3 \<and>
   (d ''safety-report.json'' = Missing \<longrightarrow> d ''semgrep-report.json'' = Missing \<longrightarrow>
      contributing_tools d \<le> 1 \<and>
      security_score (evaluate_security_results d) =
        rat_of_int (fst (bandit_block (d ''bandit-report.json''))) / 3)"
proof (intro conjI impI)
  show "security_score (evaluate_security_results d) = rat_of_int (security_score_sum d) / 3"
    by (rule security_score_div3)
next
  assume m: "d ''safety-report.json'' = Missing" "d ''semgrep-report.json'' = Missing"
  then show "contributing_tools d \<le> 1"
    by (simp add: contributing_tools_def)
  from m have "security_score_sum d = fst (bandit_block (d ''bandit-report.json''))"
    by (simp add: security_score_sum_def missing_blocks)
  then show "security_score (evaluate_security_results d) =
       rat_of_int (fst (bandit_block (d ''bandit-report.json''))) / 3"
    by (simp add: security_score_div3)
qed

lemma only_clean_bandit_files:
  "only_clean_bandit ''bandit-report.json'' = Parsed clean_bandit"
  "only_clean_bandit ''safety-report.json'' = Missing"
  "only_clean_bandit ''semgrep-report.json'' = Missing"
  by (simp_all add: only_clean_bandit_def no_files_def)

lemma bandit_block_clean: "bandit_block (Parsed clean_bandit) = (100, 0)"
  by (simp add: bandit_block_def bandit_severity_count_def clean_bandit_def)

lemma only_clean_bandit_sum: "security_score_sum only_clean_bandit = 100"
  by (simp add: security_score_sum_def only_clean_bandit_files bandit_block_clean missing_blocks)

lemma only_clean_bandit_tools: "contributing_tools only_clean_bandit = 1"
  by (simp add: contributing_tools_def only_clean_bandit_files)

theorem security_score_divisor_is_three_witness:
  "only_clean_bandit ''safety-report.json'' = Missing \<and>
   only_clean_bandit ''semgrep-report.json'' = Missing \<and>
   contributing_tools only_clean_bandit \<le> 1 \<and>
   security_score (evaluate_security_results only_clean_bandit) = 100 / 3"
  using security_score_divisor_is_three [of only_clean_bandit]
  by (simp add: only_clean_bandit_files bandit_block_clean)

text \<open>
  C5, as the specification states it: whenever at least one tool report contributes a
  term, the average is the sum of the terms divided by the number of contributing tools.
  It fails when Bandit's clean report is the only one present: one tool contributes, the
  sum is 100, and the score is 100/3.
\<close>

theorem security_average_counterexample:
  "1 \<le> contributing_tools only_clean_bandit \<and>
   security_score (evaluate_security_results only_clean_bandit) = 100 / 3 \<and>
   rat_of_int (security_score_sum only_clean_bandit) /
     rat_of_nat (contributing_tools only_clean_bandit) = 100 \<and>
   security_score (evaluate_security_results only_clean_bandit) \<noteq>
     rat_of_int (security_score_sum only_clean_bandit) /
       rat_of_nat (contributing_tools only_clean_bandit)"
  by (simp add: security_score_div3 only_clean_bandit_sum only_clean_bandit_tools)

text \<open>
  C5, amended: whenever at least one tool report contributes a term, the average is the
  sum of the terms divided by 3, the fixed number of tools; it is the sum divided by the
  number of contributing tools exactly when all three contribute or the sum is 0.
\<close>

theorem security_average_fixed_divisor:
  assumes "1 \<le> contributing_tools d"
  shows "security_score (evaluate_security_results d) = rat_of_int (security_score_sum d) / 3 \<and>
         (security_score (evaluate_security_results d) =
            rat_of_int (security_score_sum d) / rat_of_nat (contributing_tools d)
          \<longleftrightarrow> contributing_tools d = 3 \<or> security_score_sum d = 0)"
proof -
  let ?s = "rat_of_int (security_score_sum d)"
  let ?n = "rat_of_nat (contributing_tools d)"
  from assms have n: "?n \<noteq> 0" by simp
  have "?s / 3 = ?s / ?n \<longleftrightarrow> ?s * ?n = ?s * 3"
    using n by (simp add: field_simps)
  also have "\<dots> \<longleftrightarrow> ?n = 3 \<or> ?s = 0"
    by auto
  also have "\<dots> \<longleftrightarrow> contributing_tools d = 3 \<or> security_score_sum d = 0"
  proof -
    have "?n = 3 \<longleftrightarrow> contributing_tools d = 3"
      using of_nat_eq_iff [of "contributing_tools d" 3, where 'a = rat] by simp
    then show ?thesis by simp
  qed
  finally show ?thesis
    by (simp add: security_score_div3)
qed

theorem security_average_fixed_divisor_witness:
  "1 \<le> contributing_tools only_clean_bandit \<and>
   security_score (evaluate_security_results only_clean_bandit) = 100 / 3 \<and>
   contributing_tools only_clean_bandit \<noteq> 3 \<and>
   security_score_sum only_clean_bandit \<noteq> 0"
  using security_average_fixed_divisor [of only_clean_bandit]
  by (simp add: only_clean_bandit_sum only_clean_bandit_tools)

text \<open>
  C8. When the three tool reports exist and parse, Bandit's and Semgrep's with an empty
  (or no) list of results and Safety's as an empty list, the evaluator returns the score
  100, no vulnerability, and \<open>passed\<close>.
\<close>

theorem security_all_clean:
  assumes "d ''bandit-report.json'' = Parsed (JObj b)"
    and "map_of b ''results'' = None \<or> map_of b ''results'' = Some (JArr [])"
    and "d ''safety-report.json'' = Parsed (JArr [])"
    and "d ''semgrep-report.json'' = Parsed (JObj s)"
    and "map_of s ''results'' = None \<or> map_of s ''results'' = Some (JArr [])"
  shows "evaluate_security_results d =
           \<lparr> security_score = 100, vulnerability_count = 0, security_passed = True \<rparr>"
proof -
  from assms(2) have "bandit_block (Parsed (JObj b)) = (100, 0)"
    by (auto simp: bandit_block_def bandit_severity_count_def)
  moreover have "safety_block (Parsed (JArr [])) = (100, 0)"
    by (simp add: safety_block_def)
  moreover from assms(5) have "semgrep_block (Parsed (JObj s)) = (100, 0)"
    by (auto simp: semgrep_block_def semgrep_critical_findings_def)
  ultimately show ?thesis
    using assms(1,3,4) by (simp add: evaluate_security_results_def quality_gates_def)
qed

theorem security_all_clean_witness:
  "all_clean ''bandit-report.json'' = Parsed (JObj [(''results'', JArr [])]) \<and>
   all_clean ''safety-report.json'' = Parsed (JArr []) \<and>
   all_clean ''semgrep-report.json'' = Parsed (JObj [(''results'', JArr [])]) \<and>
   evaluate_security_results all_clean =
     \<lparr> security_score = 100, vulnerability_count = 0, security_passed = True \<rparr>"
  using security_all_clean [of all_clean "[(''results'', JArr [])]" "[(''results'', JArr [])]"]
  by (simp add: all_clean_def no_files_def)

section \<open>Properties of the number operations\<close>

lemma float_limit_large: "1000000 < float_limit"
  by (simp add: float_limit_def)

lemma to_float_small: "\<bar>n\<bar> \<le> 1000000 \<Longrightarrow> to_float n = Some (rat_of_int n)"
proof -
  assume "\<bar>n\<bar> \<le> 1000000"
  then have "\<bar>rat_of_int n\<bar> \<le> 1000000"
    by (metis of_int_abs of_int_le_iff of_int_numeral)
  with float_limit_large show ?thesis
    by (simp add: to_float_def)
qed

lemma halve_value:
  assumes "py_truediv score (PInt 2) = Some a"
  shows "value_of a = value_of score / 2"
proof (cases score)
  case (PInt n)
  with assms show ?thesis by (auto split: if_splits)
next
  case (PFloat x)
  with assms show ?thesis by (auto simp: to_float_small split: if_splits)
qed

lemma format_1f_iff:
  "format_1f v \<longleftrightarrow>
     (\<exists>x. v = JFloat x) \<or> (\<exists>b. v = JBool b) \<or>
     (\<exists>n. v = JInt n \<and> \<bar>rat_of_int n\<bar> < 2 ^ 1024 - 2 ^ 970)"
  by (cases v) (simp_all add: to_float_def float_limit_def)

section \<open>Properties of the gate evaluator\<close>

text \<open>
  C1. Whenever \<open>evaluate_all_gates\<close> returns, its four category records are the four
  evaluators' results, and the overall status is PASSED if and only if all four
  \<open>passed\<close> flags are true; with any other combination of the flags it is FAILED.
\<close>

theorem overall_status_iff_all_passed:
  assumes "evaluate_all_gates sd cd qd pd = Some r"
  shows "(overall_status r = ''PASSED'' \<longleftrightarrow>
            security_passed (security r) \<and> compliance_passed (compliance r) \<and>
            quality_passed (quality r) \<and> performance_passed (performance r)) \<and>
         (overall_status r \<noteq> ''PASSED'' \<longrightarrow> overall_status r = ''FAILED'') \<and>
         security r = evaluate_security_results sd \<and>
         compliance r = evaluate_compliance_results cd \<and>
         evaluate_quality_results qd = Some (quality r) \<and>
         performance r = evaluate_performance_results pd"
  using assms
  by (auto simp: evaluate_all_gates_def Let_def split: option.splits if_splits)

lemma all_compliant_passes:
  "evaluate_compliance_results all_compliant =
     \<lparr> pass_rate = 100, passed_checks = 4, total_checks = 4, compliance_passed = True \<rparr>"
  by (simp add: evaluate_compliance_results_def compliance_checks_def all_compliant_def
      no_files_def compliance_check_passed_def quality_gates_def)

lemma empty_quality_passes:
  "evaluate_quality_results empty_quality_dir =
     Some \<lparr> quality_score = 85, coverage_score = JInt 85, quality_passed = True \<rparr>"
  by (simp add: evaluate_quality_results_def empty_quality_dir_def quality_score_sum_def
      complexity_block_def debt_block_def no_files_def quality_gates_def)

lemma empty_quality_prints: "to_float 85 = Some 85"
  by (simp add: to_float_small)

lemma no_baseline_passes: "evaluate_performance_results no_files = default_performance"
  by (simp add: evaluate_performance_results_def no_files_def)

lemma all_clean_passes:
  "evaluate_security_results all_clean =
     \<lparr> security_score = 100, vulnerability_count = 0, security_passed = True \<rparr>"
  by (simp add: evaluate_security_results_def all_clean_def no_files_def bandit_block_def
      safety_block_def semgrep_block_def bandit_severity_count_def
      semgrep_critical_findings_def quality_gates_def)

lemma only_clean_bandit_fails:
  "evaluate_security_results only_clean_bandit =
     \<lparr> security_score = 100 / 3, vulnerability_count = 0, security_passed = False \<rparr>"
  by (simp add: evaluate_security_results_def only_clean_bandit_files bandit_block_clean
      missing_blocks quality_gates_def)

theorem overall_status_iff_all_passed_witness:
  "(\<exists>r. evaluate_all_gates all_clean all_compliant empty_quality_dir no_files = Some r \<and>
        overall_status r = ''PASSED'' \<and>
        security_passed (security r) \<and> compliance_passed (compliance r) \<and>
        quality_passed (quality r) \<and> performance_passed (performance r)) \<and>
   (\<exists>r. evaluate_all_gates only_clean_bandit all_compliant empty_quality_dir no_files = Some r \<and>
        overall_status r = ''FAILED'' \<and> \<not> security_passed (security r))"
proof (intro conjI)
  obtain r where r:
    "evaluate_all_gates all_clean all_compliant empty_quality_dir no_files = Some r"
    by (simp add: evaluate_all_gates_def Let_def empty_quality_passes empty_quality_prints)
  note t = overall_status_iff_all_passed [OF r]
  from t have "security_passed (security r)"
    by (simp add: all_clean_passes)
  moreover from t have "compliance_passed (compliance r)"
    by (simp add: all_compliant_passes)
  moreover from t have "Some (quality r) = evaluate_quality_results empty_quality_dir"
    by simp
  then have "quality_passed (quality r)"
    by (simp add: empty_quality_passes)
  moreover from t have "performance_passed (performance r)"
    by (simp add: no_baseline_passes default_performance_def)
  ultimately show "\<exists>r. evaluate_all_gates all_clean all_compliant empty_quality_dir no_files
        = Some r \<and> overall_status r = ''PASSED'' \<and>
        security_passed (security r) \<and> compliance_passed (compliance r) \<and>
        quality_passed (quality r) \<and> performance_passed (performance r)"
    using r t by blast
next
  obtain r where r:
    "evaluate_all_gates only_clean_bandit all_compliant empty_quality_dir no_files = Some r"
    by (simp add: evaluate_all_gates_def Let_def empty_quality_passes empty_quality_prints)
  note t = overall_status_iff_all_passed [OF r]
  from t have "\<not> security_passed (security r)"
    by (simp add: only_clean_bandit_fails)
  then show "\<exists>r. evaluate_all_gates only_clean_bandit all_compliant empty_quality_dir no_files
        = Some r \<and> overall_status r = ''FAILED'' \<and> \<not> security_passed (security r)"
    using r t by blast
qed

text \<open>
  C9. A performance baseline that exists but does not parse gives the result of an
  absent one: score 80, baseline met, passed.
\<close>

theorem malformed_baseline_as_absent:
  assumes "d ''performance-baseline.json'' = Malformed"
  shows "evaluate_performance_results d =
           evaluate_performance_results (d(''performance-baseline.json'' := Missing)) \<and>
         performance_score (evaluate_performance_results d) = 80 \<and>
         baseline_met (evaluate_performance_results d) \<and>
         performance_passed (evaluate_performance_results d)"
  using assms
  by (simp add: evaluate_performance_results_def default_performance_def)

theorem malformed_baseline_as_absent_witness:
  "malformed_baseline ''performance-baseline.json'' = Malformed \<and>
   evaluate_performance_results malformed_baseline = evaluate_performance_results no_files \<and>
   performance_score (evaluate_performance_results malformed_baseline) = 80 \<and>
   performance_passed (evaluate_performance_results malformed_baseline)"
proof -
  have h: "malformed_baseline ''performance-baseline.json'' = Malformed"
    by (simp add: malformed_baseline_def)
  have e: "malformed_baseline(''performance-baseline.json'' := Missing) = no_files"
    by (auto simp: malformed_baseline_def no_files_def fun_eq_iff)
  note t = malformed_baseline_as_absent [of malformed_baseline, OF h, unfolded e]
  from h t show ?thesis by blast
qed

text \<open>
  C10, as stated: the quality score defaults to 85 only when the total contribution
  is 0. It fails for a debt report with the debt score -10 and no complexity report:
  the total contribution is -10, and the quality score is 85, not -5.
\<close>

theorem quality_default_counterexample:
  "quality_score_sum (quality_files negative_debt_dir) = PInt (- 10) \<and>
   value_of (quality_score_sum (quality_files negative_debt_dir)) \<noteq> 0 \<and>
   map_option quality_score (evaluate_quality_results negative_debt_dir) = Some 85 \<and>
   map_option quality_score (evaluate_quality_results negative_debt_dir) \<noteq>
     Some (value_of (quality_score_sum (quality_files negative_debt_dir)) / 2)"
proof -
  have s: "quality_score_sum (quality_files negative_debt_dir) = PInt (- 10)"
    by (simp add: negative_debt_dir_def quality_score_sum_def complexity_block_def
        debt_block_def no_files_def)
  have "evaluate_quality_results negative_debt_dir =
      Some \<lparr> quality_score = 85, coverage_score = JInt 85, quality_passed = True \<rparr>"
    unfolding evaluate_quality_results_def Let_def s
    by (simp add: negative_debt_dir_def quality_gates_def)
  with s show ?thesis by simp
qed

text \<open>
  C10, amended: a missing report file leaves the score sum as it is, and the divisor
  stays 2. Whenever the evaluator returns, the quality score is half the sum when the sum
  is positive and 85 whenever it is not. With no debt report, the sum is what the
  complexity block contributes, and the quality score is half of that when it is
  positive and 85 otherwise; with both reports missing the sum is 0 and the score is 85.
\<close>

theorem quality_score_halved_or_default:
  assumes "evaluate_quality_results qd = Some r"
  shows "complexity_block Missing s = s \<and> debt_block Missing s = s \<and>
         quality_score r =
           (if value_of (quality_score_sum (quality_files qd)) > 0
            then value_of (quality_score_sum (quality_files qd)) / 2 else 85) \<and>
         (quality_files qd ''technical-debt.json'' = Missing \<longrightarrow>
            quality_score_sum (quality_files qd) =
              complexity_block (quality_files qd ''complexity-report.json'') (PInt 0) \<and>
            quality_score r =
              (if value_of (complexity_block (quality_files qd ''complexity-report.json'')
                    (PInt 0)) > 0
               then value_of (complexity_block (quality_files qd ''complexity-report.json'')
                    (PInt 0)) / 2
               else 85)) \<and>
         (quality_files qd ''complexity-report.json'' = Missing \<longrightarrow>
          quality_files qd ''technical-debt.json'' = Missing \<longrightarrow>
            quality_score_sum (quality_files qd) = PInt 0 \<and> quality_score r = 85)"
proof -
  let ?sum = "quality_score_sum (quality_files qd)"
  have m: "complexity_block Missing s = s" "debt_block Missing s = s" for s
    by (simp_all add: complexity_block_def debt_block_def)
  from assms obtain a where
    a: "(if value_of ?sum > 0 then py_truediv ?sum (PInt 2) else Some (PInt 85)) = Some a"
    and r: "quality_score r = value_of a"
    by (auto simp: evaluate_quality_results_def Let_def split: option.splits)
  have q: "quality_score r = (if value_of ?sum > 0 then value_of ?sum / 2 else 85)"
  proof (cases "value_of ?sum > 0")
    case True
    with a have "py_truediv ?sum (PInt 2) = Some a" by simp
    then have "value_of a = value_of ?sum / 2" by (rule halve_value)
    with True r show ?thesis by simp
  next
    case False
    with a have "a = PInt 85" by simp
    with False r show ?thesis by simp
  qed
  have d: "quality_files qd ''technical-debt.json'' = Missing \<Longrightarrow>
      ?sum = complexity_block (quality_files qd ''complexity-report.json'') (PInt 0)"
    by (simp add: quality_score_sum_def m)
  have e: "quality_files qd ''complexity-report.json'' = Missing \<Longrightarrow>
      quality_files qd ''technical-debt.json'' = Missing \<Longrightarrow> ?sum = PInt 0"
    by (simp add: quality_score_sum_def m)
  show ?thesis
  proof (intro conjI impI)
    show "complexity_block Missing s = s" "debt_block Missing s = s"
      by (rule m)+
    show "quality_score r = (if value_of ?sum > 0 then value_of ?sum / 2 else 85)"
      by (rule q)
  next
    assume h: "quality_files qd ''technical-debt.json'' = Missing"
    show "?sum = complexity_block (quality_files qd ''complexity-report.json'') (PInt 0)"
      using h by (rule d)
    show "quality_score r =
        (if value_of (complexity_block (quality_files qd ''complexity-report.json'')
              (PInt 0)) > 0
         then value_of (complexity_block (quality_files qd ''complexity-report.json'')
              (PInt 0)) / 2
         else 85)"
      using q d [OF h] by simp
  next
    assume h: "quality_files qd ''complexity-report.json'' = Missing"
      "quality_files qd ''technical-debt.json'' = Missing"
    show "?sum = PInt 0" using h by (rule e)
    show "quality_score r = 85" using q e [OF h] by simp
  qed
qed

lemma only_complexity_block:
  "complexity_block (quality_files only_complexity_dir ''complexity-report.json'') (PInt 0)
     = PInt 80"
  by (simp add: only_complexity_dir_def complexity_block_def complexity_term_def
      py_max0_def)

lemma only_complexity_result:
  "evaluate_quality_results only_complexity_dir =
     Some \<lparr> quality_score = 40, coverage_score = JInt 85, quality_passed = False \<rparr>"
proof -
  have "quality_score_sum (quality_files only_complexity_dir) = PInt 80"
    unfolding quality_score_sum_def only_complexity_block
    by (simp add: only_complexity_dir_def no_files_def debt_block_def)
  then show ?thesis
    unfolding evaluate_quality_results_def Let_def
    by (simp add: only_complexity_dir_def quality_gates_def float_limit_def)
qed

theorem quality_score_halved_or_default_witness:
  "quality_files only_complexity_dir ''technical-debt.json'' = Missing \<and>
   complexity_block (quality_files only_complexity_dir ''complexity-report.json'') (PInt 0)
     = PInt 80 \<and>
   map_option quality_score (evaluate_quality_results only_complexity_dir) = Some 40 \<and>
   quality_files empty_quality_dir ''complexity-report.json'' = Missing \<and>
   quality_files empty_quality_dir ''technical-debt.json'' = Missing \<and>
   map_option quality_score (evaluate_quality_results empty_quality_dir) = Some 85"
proof -
  let ?r = "\<lparr> quality_score = 40, coverage_score = JInt 85, quality_passed = False \<rparr>"
  let ?e = "\<lparr> quality_score = 85, coverage_score = JInt 85, quality_passed = True \<rparr>"
  have d: "quality_files only_complexity_dir ''technical-debt.json'' = Missing"
    by (simp add: only_complexity_dir_def no_files_def)
  note c = only_complexity_block
  have m: "quality_files empty_quality_dir ''complexity-report.json'' = Missing"
    "quality_files empty_quality_dir ''technical-debt.json'' = Missing"
    by (simp_all add: empty_quality_dir_def no_files_def)
  from quality_score_halved_or_default [OF only_complexity_result] d c
  have "quality_score ?r = 80 / 2" by simp
  moreover from quality_score_halved_or_default [OF empty_quality_passes] m
  have "quality_score ?e = 85" by simp
  ultimately show ?thesis
    using d c m by (simp add: only_complexity_result empty_quality_passes)
qed

section \<open>Properties of the promoter\<close>

lemma promote_raises_on_non_object:
  assumes "qa_results_file env = Parsed j" and "\<forall>kvs. j \<noteq> JObj kvs"
  shows "promote_templates env t = (None, initial_metadata, t)"
  using assms by (cases j) (simp_all add: promote_templates_def)

text \<open>
  C2. When the QA results load and parse and their overall status is not PASSED, the
  promotion fails with the files as they were: nothing is copied, no sidecar and no
  summary is written, \<open>main\<close> adds nothing either and the process exits with status 1.
  For results that are a JSON object, \<open>promote_templates\<close> returns false at the status
  check, with the promotion metadata untouched.
\<close>

theorem promote_refused_unless_passed:
  assumes "qa_results_file env = Parsed j"
    and "py_get j ''overall_status'' JNull \<noteq> Some (JStr ''PASSED'')"
  shows "fst (promote_templates env t) \<noteq> Some True \<and>
         snd (snd (promote_templates env t)) = t \<and>
         promote_main env t \<in> {(Exit 1, t), (Uncaught, t)} \<and>
         exit_status (fst (promote_main env t)) = 1 \<and>
         (\<forall>kvs. j = JObj kvs \<longrightarrow>
            promote_templates env t = (Some False, initial_metadata, t) \<and>
            promote_main env t = (Exit 1, t))"
proof (cases "\<exists>kvs. j = JObj kvs")
  case True
  then obtain kvs where j: "j = JObj kvs" by blast
  with assms have "promote_templates env t = (Some False, initial_metadata, t)"
    by (auto simp: promote_templates_def split: option.splits)
  then show ?thesis
    by (simp add: promote_main_def)
next
  case False
  then have "\<forall>kvs. j \<noteq> JObj kvs" by blast
  with assms(1) have "promote_templates env t = (None, initial_metadata, t)"
    by (rule promote_raises_on_non_object)
  with False show ?thesis
    by (simp add: promote_main_def)
qed

theorem promote_refused_unless_passed_witness:
  "qa_results_file refused_env = Parsed failed_evaluation \<and>
   py_get failed_evaluation ''overall_status'' JNull = Some (JStr ''FAILED'') \<and>
   template_files refused_env \<noteq> [] \<and>
   promote_templates refused_env empty_tree = (Some False, initial_metadata, empty_tree) \<and>
   promote_main refused_env empty_tree = (Exit 1, empty_tree)"
proof -
  have q: "qa_results_file refused_env = Parsed failed_evaluation"
    by (simp add: refused_env_def)
  have s: "py_get failed_evaluation ''overall_status'' JNull = Some (JStr ''FAILED'')"
    by (simp add: failed_evaluation_def)
  then have n: "py_get failed_evaluation ''overall_status'' JNull \<noteq> Some (JStr ''PASSED'')"
    by simp
  have o: "\<exists>kvs. failed_evaluation = JObj kvs"
    by (simp add: failed_evaluation_def)
  have "template_files refused_env \<noteq> []"
    by (simp add: refused_env_def)
  with promote_refused_unless_passed [OF q n, of empty_tree] q s o show ?thesis
    by blast
qed

text \<open>
  C7. With a PASSED evaluation and no template file under the source directory,
  \<open>promote_templates\<close> returns false, the process exits with status 1, and no file is
  written.
\<close>

theorem promote_fails_without_templates:
  assumes "qa_results_file env = Parsed (JObj kvs)"
    and "map_of kvs ''overall_status'' = Some (JStr ''PASSED'')"
    and "template_files env = []"
  shows "fst (promote_templates env t) = Some False \<and>
         promote_main env t = (Exit 1, t) \<and>
         exit_status (fst (promote_main env t)) = 1"
proof -
  from assms have "promote_templates env t = (Some False, initial_metadata, t)"
    by (simp add: promote_templates_def)
  then show ?thesis
    by (simp add: promote_main_def)
qed

theorem promote_fails_without_templates_witness:
  "qa_results_file no_templates_env = Parsed passed_evaluation \<and>
   template_files no_templates_env = [] \<and>
   fst (promote_templates no_templates_env empty_tree) = Some False \<and>
   exit_status (fst (promote_main no_templates_env empty_tree)) = 1"
proof -
  have q: "qa_results_file no_templates_env =
      Parsed (JObj [(''security'', JObj [(''security_score'', JInt 100),
                                         (''vulnerability_count'', JInt 0),
                                         (''passed'', JBool True)]),
                    (''overall_status'', JStr ''PASSED'')])"
    by (simp add: no_templates_env_def passed_evaluation_def)
  have s: "map_of [(''security'', JObj [(''security_score'', JInt 100),
                                        (''vulnerability_count'', JInt 0),
                                        (''passed'', JBool True)]),
                   (''overall_status'', JStr ''PASSED'')] ''overall_status''
           = Some (JStr ''PASSED'')"
    by simp
  have e: "template_files no_templates_env = []"
    by (simp add: no_templates_env_def)
  from promote_fails_without_templates [OF q s e, of empty_tree] q e show ?thesis
    by (simp add: passed_evaluation_def)
qed

section \<open>Exit codes\<close>

text \<open>
  C3, as stated, fails for the reporter: given the status FAILED it writes a report that
  says so and rejects the promotion, and the process exits with status 0.
\<close>

theorem report_exit_counterexample:
  "(case report_main (Parsed failed_evaluation) ''testing'' ''FAILED'' True True of
      (out, Some report) \<Rightarrow>
        exit_status out = 0 \<and>
        nested_get report ''promotion_report'' ''promotion_status'' JNull =
          Some (JStr ''FAILED'') \<and>
        nested_get report ''promotion_report'' ''recommendation'' JNull =
          Some (JStr ''REJECTED - QA quality gates failed, requires remediation'')
    | (out, None) \<Rightarrow> False)"
  by (simp add: report_main_def create_qa_promotion_report_def failed_evaluation_def
      report_lookups_def build_report_def nested_get_def)

lemma build_report_defined:
  "build_report tgt status vs = None \<longleftrightarrow> length vs \<noteq> 10"
  by (simp add: build_report_def split: list.split)

lemma report_built_whatever_status:
  "create_qa_promotion_report qf tgt status = None \<longleftrightarrow>
   create_qa_promotion_report qf tgt status' = None"
  by (simp add: create_qa_promotion_report_def Let_def build_report_defined
      split: option.split)

text \<open>
  C3, amended. The evaluator exits with status 0 exactly when the evaluation is PASSED
  (and its results were written), the checker exactly when the status it found is
  PASSED, the promoter exactly when \<open>promote_templates\<close> returned true (and the README
  was written); in every other case they exit with status 1. The reporter exits with
  status 0 whenever it writes its report, whatever the status string, and with status 1
  only when an exception stops it; whether it can build the report does not depend on
  the status string.
\<close>

theorem exit_status_of_entry_points:
  "exit_status (fst (evaluate_main sd cd qd pd makedirs_ok write_ok)) =
     (if makedirs_ok \<and> write_ok \<and>
         (\<exists>r. evaluate_all_gates sd cd qd pd = Some r \<and> overall_status r = ''PASSED'')
      then 0 else 1) \<and>
   exit_status (check_main f) =
     (if check_qa_gate_status f = JStr ''PASSED'' then 0 else 1) \<and>
   exit_status (fst (promote_main env t)) =
     (if fst (promote_templates env t) = Some True \<and> \<not> readme_fault env then 0 else 1) \<and>
   exit_status (fst (report_main qf tgt status mkdir_ok report_ok)) =
     (if mkdir_ok \<and> report_ok \<and> create_qa_promotion_report qf tgt status \<noteq> None
      then 0 else 1) \<and>
   (create_qa_promotion_report qf tgt status = None \<longleftrightarrow>
    create_qa_promotion_report qf tgt status' = None)"
proof (intro conjI)
  show "exit_status (fst (evaluate_main sd cd qd pd makedirs_ok write_ok)) =
     (if makedirs_ok \<and> write_ok \<and>
         (\<exists>r. evaluate_all_gates sd cd qd pd = Some r \<and> overall_status r = ''PASSED'')
      then 0 else 1)"
    by (cases "evaluate_all_gates sd cd qd pd") (simp_all add: evaluate_main_def)
  show "exit_status (check_main f) =
     (if check_qa_gate_status f = JStr ''PASSED'' then 0 else 1)"
    by (simp add: check_main_def)
  show "exit_status (fst (promote_main env t)) =
     (if fst (promote_templates env t) = Some True \<and> \<not> readme_fault env then 0 else 1)"
    by (cases "promote_templates env t")
      (simp add: promote_main_def split: option.split)
  show "exit_status (fst (report_main qf tgt status mkdir_ok report_ok)) =
     (if mkdir_ok \<and> report_ok \<and> create_qa_promotion_report qf tgt status \<noteq> None
      then 0 else 1)"
    by (cases "create_qa_promotion_report qf tgt status") (simp_all add: report_main_def)
  show "create_qa_promotion_report qf tgt status = None \<longleftrightarrow>
    create_qa_promotion_report qf tgt status' = None"
    by (rule report_built_whatever_status)
qed

lemma one_template_promoted:
  "fst (promote_templates one_template_env empty_tree) = Some True"
  by (simp add: promote_templates_def one_template_env_def passed_evaluation_def
      one_template_def copy_template_with_metadata_def sidecar_metadata_def nested_get_def
      Let_def)

lemma failed_evaluation_status:
  "check_qa_gate_status (Parsed failed_evaluation) = JStr ''FAILED''"
  by (simp add: check_qa_gate_status_def failed_evaluation_def category_sections_def
      print_section_def to_float_small)

theorem exit_status_of_entry_points_witness:
  "exit_status (fst (evaluate_main all_clean all_compliant empty_quality_dir no_files
      True True)) = 0 \<and>
   exit_status (fst (evaluate_main only_clean_bandit all_compliant empty_quality_dir no_files
      True True)) = 1 \<and>
   exit_status (check_main (Parsed failed_evaluation)) = 1 \<and>
   exit_status (fst (promote_main one_template_env empty_tree)) = 0 \<and>
   exit_status (fst (report_main (Parsed failed_evaluation) ''testing'' ''FAILED''
      True True)) = 0"
proof -
  have p: "\<exists>r. evaluate_all_gates all_clean all_compliant empty_quality_dir no_files = Some r \<and>
              overall_status r = ''PASSED''"
    by (simp add: evaluate_all_gates_def Let_def empty_quality_passes empty_quality_prints
        all_clean_passes all_compliant_passes no_baseline_passes default_performance_def)
  have q: "\<not> (\<exists>r. evaluate_all_gates only_clean_bandit all_compliant empty_quality_dir
                    no_files = Some r \<and> overall_status r = ''PASSED'')"
    by (simp add: evaluate_all_gates_def Let_def empty_quality_passes empty_quality_prints
        only_clean_bandit_fails)
  have r: "\<not> readme_fault one_template_env"
    by (simp add: one_template_env_def)
  have c: "create_qa_promotion_report (Parsed failed_evaluation) ''testing'' ''FAILED'' \<noteq> None"
    by (simp add: create_qa_promotion_report_def failed_evaluation_def report_lookups_def
        nested_get_def build_report_defined)
  note t = exit_status_of_entry_points
         [of all_clean all_compliant empty_quality_dir no_files True True
             "Parsed failed_evaluation" one_template_env empty_tree
             "Parsed failed_evaluation" "''testing''" "''FAILED''" True True "''FAILED''"]
  note u = exit_status_of_entry_points
         [of only_clean_bandit all_compliant empty_quality_dir no_files True True
             "Parsed failed_evaluation" one_template_env empty_tree
             "Parsed failed_evaluation" "''testing''" "''FAILED''" True True "''FAILED''"]
  from t [THEN conjunct1] p
  have "exit_status (fst (evaluate_main all_clean all_compliant empty_quality_dir no_files
      True True)) = 0"
    by (simp only: simp_thms if_True)
  moreover from u [THEN conjunct1] q
  have "exit_status (fst (evaluate_main only_clean_bandit all_compliant empty_quality_dir
      no_files True True)) = 1"
    by (simp only: simp_thms if_False)
  moreover from t [THEN conjunct2, THEN conjunct1]
  have "exit_status (check_main (Parsed failed_evaluation)) = 1"
    by (simp only: failed_evaluation_status) simp
  moreover from t [THEN conjunct2, THEN conjunct2, THEN conjunct1] r
  have "exit_status (fst (promote_main one_template_env empty_tree)) = 0"
    by (simp only: one_template_promoted simp_thms if_True)
  moreover from t [THEN conjunct2, THEN conjunct2, THEN conjunct2, THEN conjunct1] c
  have "exit_status (fst (report_main (Parsed failed_evaluation) ''testing'' ''FAILED''
      True True)) = 0"
    by (simp only: simp_thms if_True)
  ultimately show ?thesis by blast
qed

section \<open>Properties of the gate status checker\<close>

text \<open>
  C6, as stated, fails for an evaluation file that parses, has the overall status
  PASSED, and has a security section without the key \<open>passed\<close>: the summary raises
  KeyError, the checker reports FAILED and the process exits with status 1.
\<close>

theorem check_exit_counterexample:
  "exists_file (Parsed passed_without_flag) \<and>
   load_json (Parsed passed_without_flag) = Some passed_without_flag \<and>
   py_index passed_without_flag ''overall_status'' = Some (JStr ''PASSED'') \<and>
   check_qa_gate_status (Parsed passed_without_flag) = JStr ''FAILED'' \<and>
   exit_status (check_main (Parsed passed_without_flag)) = 1"
  by (simp add: passed_without_flag_def check_main_def check_qa_gate_status_def
      category_sections_def print_section_def)

text \<open>
  A section of the evaluation data can be summarised when it is an object with the key
  \<open>passed\<close> whose score, if it has one, is accepted by the format \<^verbatim>\<open>:.1f\<close>.
\<close>

lemma print_section_iff:
  "print_section (JObj kvs) ks \<longleftrightarrow>
     (\<forall>sec. map_of kvs (fst ks) = Some sec \<longrightarrow>
        (\<exists>fields. sec = JObj fields \<and> map_of fields ''passed'' \<noteq> None \<and>
           (\<forall>v. map_of fields (snd ks) = Some v \<longrightarrow> format_1f v)))"
proof (cases "map_of kvs (fst ks)")
  case None
  then show ?thesis by (simp add: print_section_def)
next
  case (Some sec)
  show ?thesis
  proof (cases sec)
    case (JObj fields)
    with Some show ?thesis
      by (cases "map_of fields (snd ks)"; cases "map_of fields ''passed''")
        (simp_all add: print_section_def to_float_small)
  qed (use Some in \<open>simp_all add: print_section_def\<close>)
qed

lemma print_sections_iff:
  "list_all (print_section (JObj kvs)) category_sections \<longleftrightarrow>
     (\<forall>ks \<in> set category_sections. \<forall>sec. map_of kvs (fst ks) = Some sec \<longrightarrow>
        (\<exists>fields. sec = JObj fields \<and> map_of fields ''passed'' \<noteq> None \<and>
           (\<forall>v. map_of fields (snd ks) = Some v \<longrightarrow>
              (\<exists>x. v = JFloat x) \<or> (\<exists>b. v = JBool b) \<or>
              (\<exists>n. v = JInt n \<and> \<bar>rat_of_int n\<bar> < 2 ^ 1024 - 2 ^ 970))))"
  unfolding list_all_iff format_1f_iff [symmetric]
  by (rule ball_cong [OF refl]) (rule print_section_iff)

lemma check_status_missing:
  "f = Missing \<or> f = Unopenable \<or> f = Malformed \<Longrightarrow> check_qa_gate_status f = JStr ''FAILED''"
  by (auto simp: check_qa_gate_status_def)

lemma check_status_object:
  "check_qa_gate_status (Parsed (JObj kvs)) = JStr ''PASSED'' \<longleftrightarrow>
     map_of kvs ''overall_status'' = Some (JStr ''PASSED'') \<and>
     list_all (print_section (JObj kvs)) category_sections"
  by (cases "map_of kvs ''overall_status''") (simp_all add: check_qa_gate_status_def)

lemma check_status_non_object:
  "\<forall>kvs. f \<noteq> Parsed (JObj kvs) \<Longrightarrow> check_qa_gate_status f \<noteq> JStr ''PASSED''"
proof (cases f)
  case (Parsed j)
  assume "\<forall>kvs. f \<noteq> Parsed (JObj kvs)"
  with Parsed show ?thesis
    by (cases j) (simp_all add: check_qa_gate_status_def)
qed (simp_all add: check_qa_gate_status_def)

text \<open>
  C6, amended. For a file that is missing, cannot be opened or does not parse, the
  checker reports FAILED. The process exits with status 0 if and only if the file parses
  as an object whose overall status is PASSED and each of whose category sections, where
  present, is an object with the key \<open>passed\<close> and a score that is absent or that the
  format \<^verbatim>\<open>:.1f\<close> accepts: a float, a boolean, or an int of magnitude below
  \<open>2^1024 - 2^970\<close>, the range of a double. Otherwise it exits with status 1.
\<close>

theorem check_exit_zero_iff:
  "(f = Missing \<or> f = Unopenable \<or> f = Malformed \<longrightarrow>
      check_qa_gate_status f = JStr ''FAILED'') \<and>
   (exit_status (check_main f) = 0 \<longleftrightarrow>
      (\<exists>kvs. f = Parsed (JObj kvs) \<and>
         map_of kvs ''overall_status'' = Some (JStr ''PASSED'') \<and>
         (\<forall>ks \<in> set category_sections. \<forall>sec. map_of kvs (fst ks) = Some sec \<longrightarrow>
            (\<exists>fields. sec = JObj fields \<and> map_of fields ''passed'' \<noteq> None \<and>
               (\<forall>v. map_of fields (snd ks) = Some v \<longrightarrow>
                  (\<exists>x. v = JFloat x) \<or> (\<exists>b. v = JBool b) \<or>
                  (\<exists>n. v = JInt n \<and> \<bar>rat_of_int n\<bar> < 2 ^ 1024 - 2 ^ 970)))))) \<and>
   (exit_status (check_main f) \<noteq> 0 \<longrightarrow> exit_status (check_main f) = 1)"
proof (intro conjI)
  show "f = Missing \<or> f = Unopenable \<or> f = Malformed \<longrightarrow>
      check_qa_gate_status f = JStr ''FAILED''"
    using check_status_missing by blast
  show "exit_status (check_main f) \<noteq> 0 \<longrightarrow> exit_status (check_main f) = 1"
    by (simp add: check_main_def)
  let ?ok = "\<lambda>kvs. \<forall>ks \<in> set category_sections. \<forall>sec. map_of kvs (fst ks) = Some sec \<longrightarrow>
            (\<exists>fields. sec = JObj fields \<and> map_of fields ''passed'' \<noteq> None \<and>
               (\<forall>v. map_of fields (snd ks) = Some v \<longrightarrow>
                  (\<exists>x. v = JFloat x) \<or> (\<exists>b. v = JBool b) \<or>
                  (\<exists>n. v = JInt n \<and> \<bar>rat_of_int n\<bar> < 2 ^ 1024 - 2 ^ 970)))"
  let ?rhs = "\<exists>kvs. f = Parsed (JObj kvs) \<and>
         map_of kvs ''overall_status'' = Some (JStr ''PASSED'') \<and> ?ok kvs"
  have status: "check_qa_gate_status f = JStr ''PASSED'' \<longleftrightarrow> ?rhs"
  proof (cases "\<exists>kvs. f = Parsed (JObj kvs)")
    case True
    then obtain kvs where f: "f = Parsed (JObj kvs)" by blast
    show ?thesis
      unfolding f check_status_object print_sections_iff by blast
  next
    case False
    then have "check_qa_gate_status f \<noteq> JStr ''PASSED''"
      by (intro check_status_non_object) blast
    with False show ?thesis by blast
  qed
  have e: "exit_status (check_main f) = 0 \<longleftrightarrow> check_qa_gate_status f = JStr ''PASSED''"
    by (simp add: check_main_def)
  show "exit_status (check_main f) = 0 \<longleftrightarrow> ?rhs"
    unfolding e by (rule status)
qed

theorem check_exit_zero_iff_witness:
  "exit_status (check_main (Parsed passed_evaluation)) = 0 \<and>
   check_qa_gate_status Missing = JStr ''FAILED'' \<and>
   exit_status (check_main Missing) = 1 \<and>
   exit_status (check_main (Parsed passed_without_flag)) = 1 \<and>
   exit_status (check_main (Parsed passed_huge_score)) = 1"
proof -
  have "check_qa_gate_status (Parsed passed_evaluation) = JStr ''PASSED''"
    by (simp add: check_qa_gate_status_def passed_evaluation_def category_sections_def
        print_section_def to_float_small)
  then have a: "exit_status (check_main (Parsed passed_evaluation)) = 0"
    by (simp add: check_main_def)
  have b: "exit_status (check_main (Parsed passed_without_flag)) \<noteq> 0"
    by (simp add: passed_without_flag_def check_main_def check_qa_gate_status_def
        category_sections_def print_section_def)
  have "to_float (10 ^ 310) = None"
    by (simp add: to_float_def float_limit_def)
  then have c: "exit_status (check_main (Parsed passed_huge_score)) \<noteq> 0"
    by (simp add: passed_huge_score_def check_main_def check_qa_gate_status_def
        category_sections_def print_section_def)
  from check_exit_zero_iff [of Missing] check_exit_zero_iff [of "Parsed passed_evaluation"]
    check_exit_zero_iff [of "Parsed passed_without_flag"]
    check_exit_zero_iff [of "Parsed passed_huge_score"] a b c
  show ?thesis by simp
qed

end
